theory Spec2Isabelle
  imports Main
begin

section \<open>Shared vocabulary: Python values, errors, outcomes\<close>

text \<open>
  The module \<^verbatim>\<open>cpu/misc.py\<close> consists of four functions that act on the Python
  process (random-number generators, environment variables, backend flags, the logger)
  and on the file system. Each function is embedded as a function on an explicit state;
  an exception is a value.
\<close>

datatype error =
  TypeError | ValueError | RuntimeError | OSError
  | FileExistsError | FileNotFoundError | IsADirectoryError

text \<open>A procedure that returns \<^verbatim>\<open>None\<close> either returns or raises.\<close>

datatype outcome = Returned | Raised error

text \<open>
  The values a caller can pass as \<^verbatim>\<open>seed\<close>. The annotation is
  \<^verbatim>\<open>Optional[int]\<close>; \<^verbatim>\<open>bool\<close> is a subclass of \<^verbatim>\<open>int\<close>, so
  \<^verbatim>\<open>True\<close> and \<^verbatim>\<open>False\<close> are among the integers; and Python does not enforce
  the annotation, so a string is included as the representative of a non-numeric argument.
\<close>

datatype pyval = PyNone | PyBool bool | PyInt int | PyStr string

text \<open>An instance of \<^verbatim>\<open>int\<close>: a plain integer or a boolean, with its integer value.\<close>

datatype pyint = PlainInt int | BoolInt bool

fun int_value :: "pyint \<Rightarrow> int" where
  "int_value (PlainInt i) = i"
| "int_value (BoolInt b) = (if b then 1 else 0)"

subsection \<open>\<^verbatim>\<open>str\<close> of an integer\<close>

definition digit_char :: "nat \<Rightarrow> char" where
  "digit_char d = char_of (48 + d)"

fun str_nat :: "nat \<Rightarrow> string" where
  "str_nat n = (if n < 10 then [digit_char n] else str_nat (n div 10) @ [digit_char (n mod 10)])"

declare str_nat.simps [simp del]

definition str_int :: "int \<Rightarrow> string" where
  "str_int i = (if i < 0 then CHR ''-'' # str_nat (nat (- i)) else str_nat (nat i))"

text \<open>Reading a string of decimal digits back, to check \<open>str_nat\<close> against.\<close>

definition decimal_value :: "string \<Rightarrow> nat" where
  "decimal_value cs = foldl (\<lambda>a c. 10 * a + (of_char c - 48)) 0 cs"

text \<open>
  CPython bounds the conversion of an integer to a decimal string: with a limit
  \<open>lim\<close> in force (\<^verbatim>\<open>sys.get_int_max_str_digits()\<close>, 4300 unless reconfigured, 0 for no
  limit), converting an integer of more than \<open>lim\<close> digits, the sign not counted, raises
  \<^verbatim>\<open>ValueError\<close>. Integers of at most 640 digits are never checked.
\<close>

definition int_digits :: "int \<Rightarrow> nat" where
  "int_digits i = length (str_nat (nat (abs i)))"

definition int_str :: "nat \<Rightarrow> int \<Rightarrow> error + string" where
  "int_str lim i =
     (if 640 < int_digits i \<and> 0 < lim \<and> lim < int_digits i then Inl ValueError
      else Inr (str_int i))"

definition bool_str :: "bool \<Rightarrow> string" where
  "bool_str b = (if b then ''True'' else ''False'')"

text \<open>\<^verbatim>\<open>str(x)\<close> of an instance of \<^verbatim>\<open>int\<close>.\<close>

fun pyint_str :: "nat \<Rightarrow> pyint \<Rightarrow> error + string" where
  "pyint_str lim (PlainInt i) = int_str lim i"
| "pyint_str lim (BoolInt b) = Inr (bool_str b)"

text \<open>What an f-string field \<^verbatim>\<open>{seed}\<close> renders, or the error it raises.\<close>

fun py_str :: "nat \<Rightarrow> pyval \<Rightarrow> error + string" where
  "py_str lim PyNone = Inr ''None''"
| "py_str lim (PyBool b) = Inr (bool_str b)"
| "py_str lim (PyInt i) = int_str lim i"
| "py_str lim (PyStr s) = Inr s"

subsection \<open>Strings\<close>

text \<open>\<^verbatim>\<open>sep.join(xs)\<close>.\<close>

fun join :: "string \<Rightarrow> string list \<Rightarrow> string" where
  "join sep [] = []"
| "join sep [x] = x"
| "join sep (x # y # ys) = x @ sep @ join sep (y # ys)"

text \<open>The line feed character.\<close>

definition newline :: char where
  "newline = CHR 0x0A"

section \<open>The process state touched by \<^verbatim>\<open>set_random_seed\<close>\<close>

text \<open>
  A generator is described by the seed it was last given (\<open>None\<close>: seeded by the
  interpreter from system entropy) and the number of draws made since.
\<close>

datatype gen = Gen (seeded_by: "int option") (draws: nat)

text \<open>
  The three generators, the process environment, the two cudnn backend flags, the
  messages handed to \<^verbatim>\<open>logger.warning\<close>, oldest first, the interpreter's limit
  on integer string conversion, and whether the backend flags are frozen
  (\<^verbatim>\<open>torch.backends.disable_global_flags()\<close> has been called).
\<close>

record world =
  random_gen :: gen
  np_random_gen :: gen
  torch_gen :: gen
  environ :: "string \<rightharpoonup> string"
  cudnn_benchmark :: bool
  cudnn_deterministic :: bool
  warnings :: "string list"
  int_max_str_digits :: nat
  cudnn_flags_frozen :: bool

text \<open>\<^verbatim>\<open>np.iinfo(np.uint32).max\<close> and \<^verbatim>\<open>np.iinfo(np.uint32).min\<close>.\<close>

definition max_seed_value :: int where
  "max_seed_value = 4294967295"

definition min_seed_value :: int where
  "min_seed_value = 0"

subsection \<open>The library calls\<close>

text \<open>
  \<^verbatim>\<open>random.randint(a, b)\<close> raises \<^verbatim>\<open>ValueError\<close> on an empty range and otherwise
  returns some \<open>N\<close> with \<open>a \<le> N \<le> b\<close>, taken from the module's global generator, which
  it advances. Which \<open>N\<close> is the generator's business: \<open>raw\<close> is the number the
  generator yields in a given state, and it is a parameter of the model. Every function
  from generator states into the range arises from some \<open>raw\<close>, so nothing but the
  range is built in.
\<close>

definition randint :: "(gen \<Rightarrow> nat) \<Rightarrow> int \<Rightarrow> int \<Rightarrow> world \<Rightarrow> (error + int) \<times> world" where
  "randint raw a b w =
     (if b < a then (Inl ValueError, w)
      else (Inr (a + int (raw (random_gen w) mod nat (b - a + 1))),
            w\<lparr>random_gen := Gen (seeded_by (random_gen w)) (Suc (draws (random_gen w)))\<rparr>))"

definition logger_warning :: "string \<Rightarrow> world \<Rightarrow> world" where
  "logger_warning msg w = w\<lparr>warnings := warnings w @ [msg]\<rparr>"

text \<open>
  The three seeding calls are given an instance of \<^verbatim>\<open>int\<close> and act on its integer
  value. \<^verbatim>\<open>random.seed\<close> accepts every integer.
\<close>

definition random_seed :: "int \<Rightarrow> world \<Rightarrow> outcome \<times> world" where
  "random_seed s w = (Returned, w\<lparr>random_gen := Gen (Some s) 0\<rparr>)"

text \<open>\<^verbatim>\<open>np.random.seed\<close> raises \<^verbatim>\<open>ValueError\<close> unless \<open>0 \<le> s \<le> 2^32 - 1\<close>.\<close>

definition np_random_seed :: "int \<Rightarrow> world \<Rightarrow> outcome \<times> world" where
  "np_random_seed s w =
     (if 0 \<le> s \<and> s \<le> 2 ^ 32 - 1 then (Returned, w\<lparr>np_random_gen := Gen (Some s) 0\<rparr>)
      else (Raised ValueError, w))"

text \<open>
  \<^verbatim>\<open>torch.manual_seed\<close> raises \<^verbatim>\<open>RuntimeError\<close> unless
  \<open>- 2^63 \<le> s \<le> 2^64 - 1\<close>.
\<close>

definition torch_manual_seed :: "int \<Rightarrow> world \<Rightarrow> outcome \<times> world" where
  "torch_manual_seed s w =
     (if - (2 ^ 63) \<le> s \<and> s \<le> 2 ^ 64 - 1 then (Returned, w\<lparr>torch_gen := Gen (Some s) 0\<rparr>)
      else (Raised RuntimeError, w))"

definition environ_set :: "string \<Rightarrow> string \<Rightarrow> world \<Rightarrow> outcome \<times> world" where
  "environ_set k v w = (Returned, w\<lparr>environ := (environ w)(k \<mapsto> v)\<rparr>)"

text \<open>
  Lines 86 to 88. Assigning to a backend flag raises \<^verbatim>\<open>RuntimeError\<close> once the flags
  are frozen; line 87 is the first assignment, so then neither flag is set.
\<close>

definition set_cudnn :: "bool \<Rightarrow> world \<Rightarrow> outcome \<times> world" where
  "set_cudnn deterministic w =
     (if deterministic
      then (if cudnn_flags_frozen w then (Raised RuntimeError, w)
            else (Returned, w\<lparr>cudnn_benchmark := False, cudnn_deterministic := True\<rparr>))
      else (Returned, w))"

text \<open>Statement sequencing: an exception skips what follows.\<close>

definition and_then :: "('s \<Rightarrow> outcome \<times> 's) \<Rightarrow> ('s \<Rightarrow> outcome \<times> 's) \<Rightarrow> 's \<Rightarrow> outcome \<times> 's" where
  "and_then f g s = (case f s of (Returned, s') \<Rightarrow> g s' | (Raised e, s') \<Rightarrow> (Raised e, s'))"

subsection \<open>\<^verbatim>\<open>set_random_seed\<close>\<close>

text \<open>
  The f-string of line 80: the two fields are converted from left to right, and either
  conversion can raise.
\<close>

definition warning_text :: "nat \<Rightarrow> pyval \<Rightarrow> int \<Rightarrow> error + string" where
  "warning_text lim seed new_seed =
     (case py_str lim seed of
        Inl e \<Rightarrow> Inl e
      | Inr a \<Rightarrow>
          (case int_str lim new_seed of
             Inl e \<Rightarrow> Inl e
           | Inr b \<Rightarrow> Inr (''Got invalid seed: '' @ a @ '', use the generated seed: '' @ b)))"

text \<open>
  Lines 79 to 81: draw a new seed, build the message and log it, rebind \<^verbatim>\<open>seed\<close>.
  When the message cannot be built nothing is logged and nothing is rebound; the draw has
  been made.
\<close>

definition generate_seed :: "(gen \<Rightarrow> nat) \<Rightarrow> pyval \<Rightarrow> world \<Rightarrow> (error + pyint) \<times> world" where
  "generate_seed raw seed w =
     (case randint raw min_seed_value max_seed_value w of
        (Inl e, w') \<Rightarrow> (Inl e, w')
      | (Inr new_seed, w') \<Rightarrow>
          (case warning_text (int_max_str_digits w') seed new_seed of
             Inl e \<Rightarrow> (Inl e, w')
           | Inr msg \<Rightarrow> (Inr (PlainInt new_seed), logger_warning msg w')))"

text \<open>
  Lines 76 to 81, the value of \<^verbatim>\<open>seed\<close> when line 82 is reached. The test
  \<^verbatim>\<open>seed is None or not (min_seed_value <= seed <= max_seed_value)\<close> short-circuits on
  \<^verbatim>\<open>None\<close>; a boolean is compared by its integer value; comparing an \<^verbatim>\<open>int\<close>
  with a \<^verbatim>\<open>str\<close> raises \<^verbatim>\<open>TypeError\<close>.
\<close>

fun resolve_seed :: "(gen \<Rightarrow> nat) \<Rightarrow> pyval \<Rightarrow> world \<Rightarrow> (error + pyint) \<times> world" where
  "resolve_seed raw PyNone w = generate_seed raw PyNone w"
| "resolve_seed raw (PyBool b) w =
     (if \<not> (min_seed_value \<le> int_value (BoolInt b) \<and> int_value (BoolInt b) \<le> max_seed_value)
      then generate_seed raw (PyBool b) w
      else (Inr (BoolInt b), w))"
| "resolve_seed raw (PyInt s) w =
     (if \<not> (min_seed_value \<le> s \<and> s \<le> max_seed_value) then generate_seed raw (PyInt s) w
      else (Inr (PlainInt s), w))"
| "resolve_seed raw (PyStr t) w = (Inl TypeError, w)"

text \<open>Line 85: \<^verbatim>\<open>os.environ["PYTHONHASHSEED"] = str(seed)\<close>.\<close>

definition export_hashseed :: "pyint \<Rightarrow> world \<Rightarrow> outcome \<times> world" where
  "export_hashseed seed w =
     (case pyint_str (int_max_str_digits w) seed of
        Inl e \<Rightarrow> (Raised e, w)
      | Inr v \<Rightarrow> environ_set ''PYTHONHASHSEED'' v w)"

text \<open>Lines 82 to 88, with the resolved seed.\<close>

definition apply_seed :: "pyint \<Rightarrow> bool \<Rightarrow> world \<Rightarrow> outcome \<times> world" where
  "apply_seed seed deterministic =
     and_then (random_seed (int_value seed))
    (and_then (np_random_seed (int_value seed))
    (and_then (torch_manual_seed (int_value seed))
    (and_then (export_hashseed seed)
              (set_cudnn deterministic))))"

definition set_random_seed :: "(gen \<Rightarrow> nat) \<Rightarrow> pyval \<Rightarrow> bool \<Rightarrow> world \<Rightarrow> outcome \<times> world" where
  "set_random_seed raw seed deterministic w =
     (case resolve_seed raw seed w of
        (Inl e, w') \<Rightarrow> (Raised e, w')
      | (Inr s, w') \<Rightarrow> apply_seed s deterministic w')"

text \<open>
  A process state for the examples: nothing seeded yet, cudnn autotuning switched on, the
  interpreter's default limit on integer string conversion, backend flags not frozen.
\<close>

definition sample_world :: world where
  "sample_world =
     \<lparr>random_gen = Gen None 0, np_random_gen = Gen None 0, torch_gen = Gen None 0,
      environ = Map.empty, cudnn_benchmark = True, cudnn_deterministic = False,
      warnings = [], int_max_str_digits = 4300, cudnn_flags_frozen = False\<rparr>"

text \<open>A generator for the examples: its next number is 7 plus the draws made so far.\<close>

definition sample_raw :: "gen \<Rightarrow> nat" where
  "sample_raw g = 7 + draws g"

text \<open>An integer of 4301 digits.\<close>

definition huge_seed :: int where
  "huge_seed = 10 ^ 4300"

section \<open>The file system touched by \<^verbatim>\<open>symlink\<close>\<close>

text \<open>
  A path names at most one directory entry: a regular file with its content, a directory,
  or a symbolic link with its target text. A link is broken when its target names no
  entry; nothing below depends on that. Only strings that are paths of entries are bound.
  Permissions are not modelled.
\<close>

datatype node = RegularFile string | Directory | Symlink string

type_synonym filesystem = "string \<rightharpoonup> node"

text \<open>
  What \<^verbatim>\<open>os.symlink\<close> does beyond the file system's entries is the platform's:
  \<^item> \<open>target_error\<close>: the error with which a string is refused as the text of a link, if it
    is refused. On Linux the empty string is refused with \<^verbatim>\<open>FileNotFoundError\<close>, a
    string with a NUL byte with \<^verbatim>\<open>ValueError\<close>, an over-long one with
    \<^verbatim>\<open>OSError\<close>, each before the destination is looked at.
  \<^item> \<open>symlink_with_options\<close>: the whole of the call when keyword options
    (\<^verbatim>\<open>target_is_directory\<close>, \<^verbatim>\<open>dir_fd\<close>, or an unknown keyword) are passed
    through to it. With \<^verbatim>\<open>dir_fd\<close> the link is made relative to a directory
    descriptor, which paths alone do not describe; nothing is fixed about these calls.
\<close>

record platform =
  target_error :: "string \<Rightarrow> error option"
  symlink_with_options ::
    "(string \<times> pyval) list \<Rightarrow> string \<Rightarrow> string \<Rightarrow> filesystem \<Rightarrow> outcome \<times> filesystem"

text \<open>\<^verbatim>\<open>os.path.lexists\<close>: true for every existing entry, broken links included.\<close>

definition lexists :: "string \<Rightarrow> filesystem \<Rightarrow> bool" where
  "lexists p fs = (fs p \<noteq> None)"

text \<open>
  \<^verbatim>\<open>os.remove\<close> unlinks a file or a link; on a directory it raises an
  \<^verbatim>\<open>OSError\<close> (\<^verbatim>\<open>IsADirectoryError\<close> on Linux) and removes nothing.
\<close>

definition os_remove :: "string \<Rightarrow> filesystem \<Rightarrow> outcome \<times> filesystem" where
  "os_remove p fs =
     (case fs p of
        None \<Rightarrow> (Raised FileNotFoundError, fs)
      | Some Directory \<Rightarrow> (Raised IsADirectoryError, fs)
      | Some (RegularFile c) \<Rightarrow> (Returned, fs(p := None))
      | Some (Symlink t) \<Rightarrow> (Returned, fs(p := None)))"

text \<open>
  \<^verbatim>\<open>os.symlink(src, dst, **kwargs)\<close>. Without options: a refused target raises the
  platform's error; otherwise an existing \<open>dst\<close> raises \<^verbatim>\<open>FileExistsError\<close>; otherwise
  the link is made.
\<close>

definition os_symlink ::
  "platform \<Rightarrow> string \<Rightarrow> string \<Rightarrow> (string \<times> pyval) list \<Rightarrow> filesystem
     \<Rightarrow> outcome \<times> filesystem" where
  "os_symlink pf src dst kwargs fs =
     (if kwargs \<noteq> [] then symlink_with_options pf kwargs src dst fs
      else
        (case target_error pf src of
           Some e \<Rightarrow> (Raised e, fs)
         | None \<Rightarrow>
             (if fs dst \<noteq> None then (Raised FileExistsError, fs)
              else (Returned, fs(dst \<mapsto> Symlink src)))))"

definition symlink ::
  "platform \<Rightarrow> string \<Rightarrow> string \<Rightarrow> bool \<Rightarrow> (string \<times> pyval) list \<Rightarrow> filesystem
     \<Rightarrow> outcome \<times> filesystem" where
  "symlink pf src dst overwrite kwargs =
     and_then (\<lambda>fs. if lexists dst fs \<and> overwrite then os_remove dst fs else (Returned, fs))
              (os_symlink pf src dst kwargs)"

text \<open>
  A file system for the examples: a directory, a regular file, and a broken link.
\<close>

definition sample_fs :: filesystem where
  "sample_fs =
     [''out'' \<mapsto> Directory, ''log.txt'' \<mapsto> RegularFile ''data'',
      ''latest'' \<mapsto> Symlink ''missing'']"

text \<open>
  A platform for the examples. Link targets are checked as on Linux, with 4095 bytes as the
  longest target. The examples pass no options, so its answer to options is never
  consulted; it refuses them all, as an unknown keyword is refused.
\<close>

definition sample_target_error :: "string \<Rightarrow> error option" where
  "sample_target_error src =
     (if CHR 0x00 \<in> set src then Some ValueError
      else if src = [] then Some FileNotFoundError
      else if 4095 < length src then Some OSError
      else None)"

definition sample_platform :: platform where
  "sample_platform =
     \<lparr>target_error = sample_target_error,
      symlink_with_options = (\<lambda>kwargs src dst fs. (Raised TypeError, fs))\<rparr>"

section \<open>\<^verbatim>\<open>create_small_table\<close>\<close>

text \<open>
  The dictionary is an object on the heap, passed by reference; its entries are kept in
  iteration order. The objects in a tuple are the keys, which are strings, and the values,
  of any type \<open>'v\<close>.
\<close>

datatype 'v pyobj = StrObj string | AnyObj 'v

type_synonym 'v heap = "nat \<Rightarrow> (string \<times> 'v) list"

text \<open>\<^verbatim>\<open>small_dict.items()\<close>: one 2-tuple per entry.\<close>

definition dict_items :: "(string \<times> 'v) list \<Rightarrow> 'v pyobj list list" where
  "dict_items d = map (\<lambda>(k, v). [StrObj k, AnyObj v]) d"

text \<open>
  \<^verbatim>\<open>tuple(zip(*rows))\<close>: no tuple for no argument; otherwise the tuple of first
  components, of second components, and so on, until the shortest argument is exhausted.
\<close>

function zip_star :: "'a list list \<Rightarrow> 'a list list" where
  "zip_star rows =
     (if rows = [] \<or> [] \<in> set rows then [] else map hd rows # zip_star (map tl rows))"
  by pat_completeness auto
termination
proof (relation "measure (\<lambda>rows. length (hd rows))")
  show "wf (measure (\<lambda>rows :: 'a list list. length (hd rows)))"
    by simp
next
  fix rows :: "'a list list"
  assume "\<not> (rows = [] \<or> [] \<in> set rows)"
  then have "rows \<noteq> []" and "hd rows \<noteq> []"
    by (cases rows; cases "hd rows"; simp)+
  then show "(map tl rows, rows) \<in> measure (\<lambda>rows. length (hd rows))"
    by (simp add: hd_map)
qed

declare zip_star.simps [simp del]

text \<open>
  \<^verbatim>\<open>keys, values = t\<close> raises \<^verbatim>\<open>ValueError\<close> unless \<open>t\<close> has exactly two
  components.
\<close>

fun unpack2 :: "'a list \<Rightarrow> error + ('a \<times> 'a)" where
  "unpack2 [a, b] = Inr (a, b)"
| "unpack2 _ = Inl ValueError"

text \<open>
  \<^verbatim>\<open>tabulate\<close> is a third-party library: the call is recorded with its arguments, and
  what the library renders for them is a parameter.
\<close>

record 'v tabulate_call =
  tabular_data :: "'v pyobj list list"
  headers :: "'v pyobj list"
  tablefmt :: string
  floatfmt :: string
  stralign :: string
  numalign :: string

definition create_small_table ::
  "('v tabulate_call \<Rightarrow> error + string) \<Rightarrow> nat \<Rightarrow> 'v heap \<Rightarrow> (error + string) \<times> 'v heap" where
  "create_small_table tabulate small_dict h =
     (case unpack2 (zip_star (dict_items (h small_dict))) of
        Inl e \<Rightarrow> (Inl e, h)
      | Inr (keys, vals) \<Rightarrow>
          (tabulate \<lparr>tabular_data = [vals], headers = keys, tablefmt = ''pipe'',
                     floatfmt = ''.3f'', stralign = ''center'', numalign = ''center''\<rparr>, h))"

text \<open>
  For the examples: a heap whose object 0 is a dictionary of two integer scores and whose
  other objects are empty dictionaries, and a stand-in renderer that writes the headers and
  the cells of the rows, each separated by bars, on two lines.
\<close>

definition sample_heap :: "int heap" where
  "sample_heap a = (if a = 0 then [(''AP'', 50), (''AP50'', 80)] else [])"

fun cell_text :: "int pyobj \<Rightarrow> string" where
  "cell_text (StrObj s) = s"
| "cell_text (AnyObj i) = str_int i"

definition sample_tabulate :: "int tabulate_call \<Rightarrow> error + string" where
  "sample_tabulate c =
     Inr (join ''|'' (map cell_text (headers c)) @ [newline]
          @ join ''|'' (map cell_text (concat (tabular_data c))))"

section \<open>\<^verbatim>\<open>collect_env\<close>\<close>

text \<open>
  What the function reads from the interpreter and the libraries. A version of
  \<open>None\<close> stands for a module whose import raises \<^verbatim>\<open>ModuleNotFoundError\<close>;
  \<open>cuda_device_names\<close> lists \<^verbatim>\<open>torch.cuda.get_device_name(k)\<close> for the \<open>k\<close> below
  \<^verbatim>\<open>torch.cuda.device_count()\<close>.
\<close>

record sysenv =
  sys_platform :: string
  sys_version :: string
  np_version :: string
  cuda_is_available :: bool
  cuda_device_names :: "string list"
  torch_version :: string
  torchvision_version :: "string option"
  cv2_version :: "string option"
  torch_config :: string

datatype info = InfoStr string | InfoBool bool

text \<open>
  \<^verbatim>\<open>devices[name].append(v)\<close> on a \<^verbatim>\<open>defaultdict(list)\<close>: a new key goes to the end
  of the iteration order with the list \<open>[v]\<close>.
\<close>

fun dd_append :: "('k \<times> 'v list) list \<Rightarrow> 'k \<Rightarrow> 'v \<Rightarrow> ('k \<times> 'v list) list" where
  "dd_append [] k v = [(k, [v])]"
| "dd_append ((k', vs) # d) k v =
     (if k' = k then (k', vs @ [v]) # d else (k', vs) # dd_append d k v)"

text \<open>The loop of lines 45 and 46.\<close>

definition devices :: "string list \<Rightarrow> (string \<times> string list) list" where
  "devices names =
     fold (\<lambda>k d. dd_append d (names ! k) (str_int (int k))) [0..<length names] []"

text \<open>The entries appended by lines 47 and 48.\<close>

definition gpu_entries :: "string list \<Rightarrow> (string \<times> info) list" where
  "gpu_entries names =
     map (\<lambda>(name, device_ids). (''GPU '' @ join '','' device_ids, InfoStr name)) (devices names)"

text \<open>The list \<^verbatim>\<open>env_info\<close> when line 64 is reached.\<close>

definition env_info :: "sysenv \<Rightarrow> (string \<times> info) list" where
  "env_info env =
     [(''sys.platform'', InfoStr (sys_platform env)),
      (''Python'', InfoStr (filter (\<lambda>c. c \<noteq> newline) (sys_version env))),
      (''Numpy'', InfoStr (np_version env)),
      (''CUDA available'', InfoBool (cuda_is_available env))]
     @ (if cuda_is_available env then gpu_entries (cuda_device_names env) else [])
     @ [(''PyTorch'', InfoStr (torch_version env))]
     @ (case torchvision_version env of Some v \<Rightarrow> [(''TorchVision'', InfoStr v)] | None \<Rightarrow> [])
     @ (case cv2_version env of Some v \<Rightarrow> [(''OpenCV'', InfoStr v)] | None \<Rightarrow> [])"

definition collect_env :: "((string \<times> info) list \<Rightarrow> string) \<Rightarrow> sysenv \<Rightarrow> string" where
  "collect_env tabulate env = tabulate (env_info env) @ [newline] @ torch_config env"

text \<open>An entry of the report is a GPU entry when its label starts with \<^verbatim>\<open>GPU\<close>.\<close>

definition is_gpu_entry :: "string \<times> info \<Rightarrow> bool" where
  "is_gpu_entry e = (take 3 (fst e) = ''GPU'')"

text \<open>
  The specification of a merged entry: the decimal indices, in increasing order, of the
  devices among the first \<open>n\<close> that are called \<open>name\<close>.
\<close>

definition device_ids :: "string list \<Rightarrow> nat \<Rightarrow> string \<Rightarrow> string list" where
  "device_ids names n name =
     map (\<lambda>k. str_int (int k)) (filter (\<lambda>k. names ! k = name) [0..<n])"

text \<open>The dictionary \<^verbatim>\<open>devices\<close> after \<open>n\<close> rounds of the loop.\<close>

definition devices_upto :: "string list \<Rightarrow> nat \<Rightarrow> (string \<times> string list) list" where
  "devices_upto names n =
     fold (\<lambda>k d. dd_append d (names ! k) (str_int (int k))) [0..<n] []"

text \<open>Two machines for the examples: one with two accelerators of one name, one with none.\<close>

definition sample_gpu_env :: sysenv where
  "sample_gpu_env =
     \<lparr>sys_platform = ''linux'', sys_version = ''3.8.10 (default)'' @ [newline] @ ''[GCC 9.4.0]'',
      np_version = ''1.21.0'', cuda_is_available = True,
      cuda_device_names = [''Tesla T4'', ''Tesla T4''], torch_version = ''1.9.0'',
      torchvision_version = None, cv2_version = Some ''4.5.2'', torch_config = ''PyTorch built with: GCC 7.3''\<rparr>"

definition sample_cpu_env :: sysenv where
  "sample_cpu_env = sample_gpu_env\<lparr>cuda_is_available := False, cuda_device_names := []\<rparr>"

section \<open>Properties of \<^verbatim>\<open>set_random_seed\<close>\<close>

subsection \<open>Decimal strings\<close>

text \<open>
  \<open>str_nat\<close> writes decimal digits only, and they read back as the number written.
\<close>

lemma decimal_value_snoc: "decimal_value (cs @ [c]) = 10 * decimal_value cs + (of_char c - 48)"
  by (simp add: decimal_value_def)

lemma of_char_digit_char: "d < 10 \<Longrightarrow> of_char (digit_char d) = 48 + d"
  by (simp add: digit_char_def)

lemma decimal_value_str_nat: "decimal_value (str_nat n) = n"
proof (induction n rule: str_nat.induct)
  case (1 n)
  show ?case
  proof (cases "n < 10")
    case True
    then show ?thesis
      by (subst str_nat.simps) (simp add: decimal_value_def of_char_digit_char)
  next
    case False
    with "1" have "decimal_value (str_nat (n div 10)) = n div 10"
      by simp
    with False show ?thesis
      by (subst str_nat.simps) (simp add: decimal_value_snoc of_char_digit_char)
  qed
qed

lemma str_nat_digits: "c \<in> set (str_nat n) \<Longrightarrow> c \<in> digit_char ` {..<10}"
proof (induction n rule: str_nat.induct)
  case (1 n)
  then show ?case
    by (subst (asm) str_nat.simps) (auto split: if_splits)
qed

lemma decimal_value_str_int: "0 \<le> i \<Longrightarrow> int (decimal_value (str_int i)) = i"
  by (simp add: str_int_def decimal_value_str_nat)

text \<open>The number of digits written: at most \<open>k\<close> below \<open>10^k\<close>, more than \<open>k\<close> from \<open>10^k\<close> on.\<close>

lemma str_nat_length_le:
  assumes "0 < k" and "n < 10 ^ k"
  shows "length (str_nat n) \<le> k"
  using assms
proof (induction k arbitrary: n)
  case 0
  then show ?case
    by simp
next
  case (Suc k)
  show ?case
  proof (cases "n < 10")
    case True
    then show ?thesis
      by (subst str_nat.simps) simp
  next
    case False
    from Suc.prems have d: "n div 10 < 10 ^ k"
      by (simp add: less_mult_imp_div_less mult.commute)
    from False have "1 \<le> n div 10"
      by (simp add: div_greater_zero_iff Suc_le_eq)
    with d have "0 < k"
      by (cases k) simp_all
    from Suc.IH [OF this d] False show ?thesis
      by (subst str_nat.simps) simp
  qed
qed

lemma str_nat_length_gt:
  assumes "10 ^ k \<le> n"
  shows "k < length (str_nat n)"
  using assms
proof (induction k arbitrary: n)
  case 0
  show ?case
    by (subst str_nat.simps) simp
next
  case (Suc k)
  have a: "(10::nat) \<le> 10 ^ Suc k"
    by simp
  from order_trans [OF a Suc.prems] have n: "\<not> n < 10"
    by simp
  have "(10::nat) ^ k = (10 ^ Suc k) div 10"
    by simp
  also have "\<dots> \<le> n div 10"
    using Suc.prems by (rule div_le_mono)
  finally have d: "10 ^ k \<le> n div 10" .
  from Suc.IH [OF d] n show ?case
    by (subst str_nat.simps) simp
qed

lemma int_digits_power: "k < int_digits (10 ^ k)"
proof -
  have "nat (abs ((10::int) ^ k)) = 10 ^ k"
    by (simp add: nat_power_eq)
  then show ?thesis
    by (simp add: int_digits_def str_nat_length_gt)
qed

lemma int_digits_seed:
  assumes "0 \<le> i" and "i \<le> 4294967295"
  shows "int_digits i \<le> 10"
proof -
  have "nat (abs i) < 10 ^ 10"
    using assms by simp
  then show ?thesis
    unfolding int_digits_def by (intro str_nat_length_le) simp_all
qed

text \<open>A seed in range is always converted, whatever the limit.\<close>

lemma int_str_seed:
  assumes "0 \<le> i" and "i \<le> 4294967295"
  shows "int_str lim i = Inr (str_int i)"
  using int_digits_seed [OF assms] by (simp add: int_str_def)

lemma int_str_huge: "int_str 4300 huge_seed = Inl ValueError"
proof -
  have "4300 < int_digits huge_seed"
    unfolding huge_seed_def by (rule int_digits_power)
  then show ?thesis
    by (simp add: int_str_def)
qed

lemma power_ten_above_range:
  assumes "10 \<le> k"
  shows "(4294967295::int) < 10 ^ k"
proof -
  have "(10::int) ^ 10 \<le> 10 ^ k"
    using assms by (intro power_increasing) simp_all
  then show ?thesis
    by simp
qed

lemma huge_seed_out_of_range: "\<not> (min_seed_value \<le> huge_seed \<and> huge_seed \<le> max_seed_value)"
proof -
  have "(4294967295::int) < 10 ^ 4300"
    by (rule power_ten_above_range) simp
  then have "\<not> huge_seed \<le> max_seed_value"
    unfolding huge_seed_def max_seed_value_def by (simp only: not_le)
  then show ?thesis
    by blast
qed

lemma str_int_42: "str_int 42 = ''42''"
  by code_simp

lemma str_int_7: "str_int 7 = ''7''"
  by code_simp

lemma str_int_m1: "str_int (- 1) = ''-1''"
  by code_simp

lemma int_str_m1: "int_str lim (- 1) = Inr ''-1''"
proof -
  have "int_digits (- 1) = 1"
    by (simp add: int_digits_def str_nat.simps)
  then show ?thesis
    by (simp add: int_str_def str_int_m1)
qed

subsection \<open>The draw\<close>

lemma randint_seed:
  "randint raw min_seed_value max_seed_value w =
     (Inr (int (raw (random_gen w) mod 4294967296)),
      w\<lparr>random_gen := Gen (seeded_by (random_gen w)) (Suc (draws (random_gen w)))\<rparr>)"
  by (simp add: randint_def min_seed_value_def max_seed_value_def)

lemma randint_range:
  assumes "a \<le> b"
  shows "\<exists>r w'. randint raw a b w = (Inr r, w') \<and> a \<le> r \<and> r \<le> b \<and> warnings w' = warnings w"
proof -
  have "raw (random_gen w) mod nat (b - a + 1) < nat (b - a + 1)"
    using assms by (intro mod_less_divisor) simp
  then have "int (raw (random_gen w) mod nat (b - a + 1)) < b - a + 1"
    using assms by linarith
  then show ?thesis
    using assms by (simp add: randint_def)
qed

lemma randint_onto:
  assumes "a \<le> v" and "v \<le> b"
  shows "fst (randint (\<lambda>g. nat (v - a)) a b w) = Inr v"
  using assms by (simp add: randint_def)

subsection \<open>Resolving the seed\<close>

text \<open>
  When the rejected value can be written, the replacement is drawn and the warning is
  logged; when it cannot, the draw has been made and the conversion's error is raised.
\<close>

lemma generate_seed_ok:
  assumes "py_str (int_max_str_digits w) seed = Inr t"
  shows "generate_seed raw seed w =
     (Inr (PlainInt (int (raw (random_gen w) mod 4294967296))),
      logger_warning (''Got invalid seed: '' @ t @ '', use the generated seed: ''
                      @ str_int (int (raw (random_gen w) mod 4294967296)))
        (w\<lparr>random_gen := Gen (seeded_by (random_gen w)) (Suc (draws (random_gen w)))\<rparr>))"
proof -
  have "int_str lim (int (raw (random_gen w) mod 4294967296))
          = Inr (str_int (int (raw (random_gen w) mod 4294967296)))" for lim
    by (rule int_str_seed) simp_all
  then show ?thesis
    using assms by (simp add: generate_seed_def randint_seed warning_text_def)
qed

lemma generate_seed_raises:
  assumes "py_str (int_max_str_digits w) seed = Inl e"
  shows "generate_seed raw seed w =
     (Inl e, w\<lparr>random_gen := Gen (seeded_by (random_gen w)) (Suc (draws (random_gen w)))\<rparr>)"
  using assms by (simp add: generate_seed_def randint_seed warning_text_def)

lemma generate_seed_range:
  assumes "generate_seed raw seed w = (Inr s, w')"
  shows "0 \<le> int_value s \<and> int_value s \<le> 4294967295"
proof (cases "py_str (int_max_str_digits w) seed")
  case (Inl e)
  from generate_seed_raises [OF this, of raw] assms show ?thesis
    by simp
next
  case (Inr t)
  from generate_seed_ok [OF this, of raw] assms show ?thesis
    by auto
qed

lemma generate_seed_frame:
  assumes "generate_seed raw seed w = (r, w')"
  shows "cudnn_benchmark w' = cudnn_benchmark w \<and> cudnn_deterministic w' = cudnn_deterministic w
    \<and> int_max_str_digits w' = int_max_str_digits w
    \<and> cudnn_flags_frozen w' = cudnn_flags_frozen w"
proof (cases "py_str (int_max_str_digits w) seed")
  case (Inl e)
  from generate_seed_raises [OF this, of raw] assms show ?thesis
    by auto
next
  case (Inr t)
  from generate_seed_ok [OF this, of raw] assms show ?thesis
    by (auto simp: logger_warning_def)
qed

lemma resolve_seed_range:
  assumes "resolve_seed raw seed w = (Inr s, w')"
  shows "0 \<le> int_value s \<and> int_value s \<le> 4294967295"
  using assms
  by (cases seed)
     (auto simp: min_seed_value_def max_seed_value_def split: if_splits dest: generate_seed_range)

lemma resolve_seed_frame:
  assumes "resolve_seed raw seed w = (r, w')"
  shows "cudnn_benchmark w' = cudnn_benchmark w \<and> cudnn_deterministic w' = cudnn_deterministic w
    \<and> int_max_str_digits w' = int_max_str_digits w
    \<and> cudnn_flags_frozen w' = cudnn_flags_frozen w"
  using assms by (cases seed) (auto split: if_splits dest: generate_seed_frame)

subsection \<open>Applying the seed\<close>

text \<open>What line 85 writes for a resolved seed.\<close>

lemma pyint_str_seed:
  assumes "0 \<le> int_value s" and "int_value s \<le> 4294967295"
  shows "pyint_str lim s = Inr (case s of PlainInt i \<Rightarrow> str_int i | BoolInt b \<Rightarrow> bool_str b)"
  using assms by (cases s) (simp_all add: int_str_seed)

lemma set_cudnn_returns:
  assumes "\<not> (deterministic \<and> cudnn_flags_frozen w)"
  shows "fst (set_cudnn deterministic w) = Returned"
  using assms by (auto simp: set_cudnn_def)

lemma apply_seed_eq:
  assumes "0 \<le> int_value s" and "int_value s \<le> 4294967295"
  shows "apply_seed s deterministic w =
     set_cudnn deterministic
       (w\<lparr>random_gen := Gen (Some (int_value s)) 0, np_random_gen := Gen (Some (int_value s)) 0,
          torch_gen := Gen (Some (int_value s)) 0,
          environ := (environ w)(''PYTHONHASHSEED'' \<mapsto>
                       (case s of PlainInt i \<Rightarrow> str_int i | BoolInt b \<Rightarrow> bool_str b))\<rparr>)"
  using assms
  by (simp add: apply_seed_def and_then_def random_seed_def np_random_seed_def
        torch_manual_seed_def export_hashseed_def environ_set_def pyint_str_seed)

lemma set_random_seed_eq:
  assumes "resolve_seed raw seed w = (Inr s, w1)"
  shows "set_random_seed raw seed deterministic w =
     set_cudnn deterministic
       (w1\<lparr>random_gen := Gen (Some (int_value s)) 0, np_random_gen := Gen (Some (int_value s)) 0,
           torch_gen := Gen (Some (int_value s)) 0,
           environ := (environ w1)(''PYTHONHASHSEED'' \<mapsto>
                        (case s of PlainInt i \<Rightarrow> str_int i | BoolInt b \<Rightarrow> bool_str b))\<rparr>)"
proof -
  have "0 \<le> int_value s" and "int_value s \<le> 4294967295"
    using resolve_seed_range [OF assms] by simp_all
  then show ?thesis
    using assms by (simp add: set_random_seed_def apply_seed_eq)
qed

text \<open>
  For a resolved seed that is a plain integer: each generator has been seeded with it, and
  \<^verbatim>\<open>PYTHONHASHSEED\<close> is its decimal string.
\<close>

lemma set_random_seed_plain_seed:
  assumes "resolve_seed raw seed w = (Inr (PlainInt s), w1)"
  shows "random_gen (snd (set_random_seed raw seed deterministic w)) = Gen (Some s) 0
    \<and> np_random_gen (snd (set_random_seed raw seed deterministic w)) = Gen (Some s) 0
    \<and> torch_gen (snd (set_random_seed raw seed deterministic w)) = Gen (Some s) 0
    \<and> environ (snd (set_random_seed raw seed deterministic w)) ''PYTHONHASHSEED''
          = Some (str_int s)"
  unfolding set_random_seed_eq [OF assms] by (simp add: set_cudnn_def)

subsection \<open>The claims\<close>

text \<open>
  C1 at a seed of 4301 digits, under the default limit of 4300. The seed is out of range,
  so line 79 draws a replacement; the f-string of line 80 then fails to convert the
  rejected seed and the call raises \<^verbatim>\<open>ValueError\<close>: no warning is logged, the
  replacement does not become the seed, and beyond the draw nothing is seeded or exported.
\<close>

theorem set_random_seed_huge_seed_raises:
  "fst (set_random_seed sample_raw (PyInt huge_seed) False sample_world) = Raised ValueError
   \<and> warnings (snd (set_random_seed sample_raw (PyInt huge_seed) False sample_world)) = []
   \<and> random_gen (snd (set_random_seed sample_raw (PyInt huge_seed) False sample_world))
        = Gen None 1
   \<and> np_random_gen (snd (set_random_seed sample_raw (PyInt huge_seed) False sample_world))
        = Gen None 0
   \<and> torch_gen (snd (set_random_seed sample_raw (PyInt huge_seed) False sample_world))
        = Gen None 0
   \<and> environ (snd (set_random_seed sample_raw (PyInt huge_seed) False sample_world))
        ''PYTHONHASHSEED'' = None"
proof -
  have "py_str (int_max_str_digits sample_world) (PyInt huge_seed) = Inl ValueError"
    by (simp add: sample_world_def int_str_huge)
  from generate_seed_raises [OF this, of sample_raw]
  have "resolve_seed sample_raw (PyInt huge_seed) sample_world
          = (Inl ValueError, sample_world\<lparr>random_gen := Gen None 1\<rparr>)"
    using huge_seed_out_of_range by (simp add: sample_world_def)
  then show ?thesis
    by (simp add: set_random_seed_def sample_world_def)
qed

text \<open>
  C3, as stated, fails for a seed that is not a number: the range test compares an
  \<^verbatim>\<open>int\<close> with a \<^verbatim>\<open>str\<close>, and the call raises \<^verbatim>\<open>TypeError\<close>.
\<close>

theorem set_random_seed_str_seed_raises:
  "fst (set_random_seed sample_raw (PyStr ''abc'') False sample_world) = Raised TypeError"
  by (simp add: set_random_seed_def)

text \<open>
  C3, amended. For a seed that is \<^verbatim>\<open>None\<close> or a plain integer whose conversion to a
  string is within the interpreter's limit (\<open>t\<close> is that string), and with the backend
  flags not frozen when \<^verbatim>\<open>deterministic=True\<close>, the call returns without raising. An integer in range is used as it is, with no warning. \<^verbatim>\<open>None\<close> and an
  integer out of range are replaced by the result \<open>r\<close> of
  \<^verbatim>\<open>random.randint(0, 2^32 - 1)\<close>, which lies in the range: one warning is logged,
  naming the rejected value and \<open>r\<close>, and the three generators are seeded with \<open>r\<close>.
\<close>

theorem set_random_seed_int_or_none_returns:
  assumes "seed = PyNone \<or> seed = PyInt i"
    and "py_str (int_max_str_digits w) seed = Inr t"
    and "\<not> (deterministic \<and> cudnn_flags_frozen w)"
  shows "fst (set_random_seed raw seed deterministic w) = Returned
    \<and> (seed = PyNone \<longrightarrow> t = ''None'')
    \<and> (seed = PyInt i \<longrightarrow> t = str_int i)
    \<and> (seed = PyInt i \<and> 0 \<le> i \<and> i \<le> 4294967295 \<longrightarrow>
          warnings (snd (set_random_seed raw seed deterministic w)) = warnings w
          \<and> random_gen (snd (set_random_seed raw seed deterministic w)) = Gen (Some i) 0
          \<and> np_random_gen (snd (set_random_seed raw seed deterministic w)) = Gen (Some i) 0
          \<and> torch_gen (snd (set_random_seed raw seed deterministic w)) = Gen (Some i) 0)
    \<and> (seed = PyNone \<or> i < 0 \<or> 4294967295 < i \<longrightarrow>
          (\<exists>r. fst (randint raw 0 4294967295 w) = Inr r \<and> 0 \<le> r \<and> r \<le> 4294967295
             \<and> warnings (snd (set_random_seed raw seed deterministic w))
                  = warnings w @ [''Got invalid seed: '' @ t
                                  @ '', use the generated seed: '' @ str_int r]
             \<and> random_gen (snd (set_random_seed raw seed deterministic w)) = Gen (Some r) 0
             \<and> np_random_gen (snd (set_random_seed raw seed deterministic w)) = Gen (Some r) 0
             \<and> torch_gen (snd (set_random_seed raw seed deterministic w)) = Gen (Some r) 0))"
proof (intro conjI impI)
  let ?r = "int (raw (random_gen w) mod 4294967296)"
  let ?w = "logger_warning (''Got invalid seed: '' @ t @ '', use the generated seed: ''
                      @ str_int ?r)
        (w\<lparr>random_gen := Gen (seeded_by (random_gen w)) (Suc (draws (random_gen w)))\<rparr>)"
  have gen: "generate_seed raw seed w = (Inr (PlainInt ?r), ?w)"
    using assms(2) by (rule generate_seed_ok)
  have valid: "resolve_seed raw seed w = (Inr (PlainInt i), w)"
    if "seed = PyInt i \<and> 0 \<le> i \<and> i \<le> 4294967295"
    using that by (simp add: min_seed_value_def max_seed_value_def)
  have invalid: "resolve_seed raw seed w = (Inr (PlainInt ?r), ?w)"
    if "seed = PyNone \<or> i < 0 \<or> 4294967295 < i"
    using that assms(1) gen by (auto simp: min_seed_value_def max_seed_value_def)
  have "\<exists>s w1. resolve_seed raw seed w = (Inr s, w1)
          \<and> cudnn_flags_frozen w1 = cudnn_flags_frozen w"
  proof (cases "seed = PyNone \<or> i < 0 \<or> 4294967295 < i")
    case True
    then show ?thesis
      using invalid by (auto simp: logger_warning_def)
  next
    case False
    with assms(1) have "seed = PyInt i \<and> 0 \<le> i \<and> i \<le> 4294967295"
      by auto
    then show ?thesis
      using valid by blast
  qed
  then show "fst (set_random_seed raw seed deterministic w) = Returned"
    using assms(3) by (auto simp: set_random_seed_eq set_cudnn_returns)
  show "t = ''None''" if "seed = PyNone"
    using that assms(2) by simp
  show "t = str_int i" if "seed = PyInt i"
    using that assms(2) by (simp add: int_str_def split: if_splits)
  {
    assume v: "seed = PyInt i \<and> 0 \<le> i \<and> i \<le> 4294967295"
    note eq = set_random_seed_eq [OF valid [OF v], of deterministic]
    show "warnings (snd (set_random_seed raw seed deterministic w)) = warnings w"
      unfolding eq by (simp add: set_cudnn_def)
    show "random_gen (snd (set_random_seed raw seed deterministic w)) = Gen (Some i) 0"
      unfolding eq by (simp add: set_cudnn_def)
    show "np_random_gen (snd (set_random_seed raw seed deterministic w)) = Gen (Some i) 0"
      unfolding eq by (simp add: set_cudnn_def)
    show "torch_gen (snd (set_random_seed raw seed deterministic w)) = Gen (Some i) 0"
      unfolding eq by (simp add: set_cudnn_def)
  }
  {
    assume n: "seed = PyNone \<or> i < 0 \<or> 4294967295 < i"
    note eq = set_random_seed_eq [OF invalid [OF n], of deterministic]
    have "fst (randint raw 0 4294967295 w) = Inr ?r"
      using randint_seed [of raw w] by (simp add: min_seed_value_def max_seed_value_def)
    moreover have "0 \<le> ?r" and "?r \<le> 4294967295"
      by simp_all
    moreover have "warnings (snd (set_random_seed raw seed deterministic w))
        = warnings w @ [''Got invalid seed: '' @ t @ '', use the generated seed: '' @ str_int ?r]"
      unfolding eq by (simp add: set_cudnn_def logger_warning_def)
    moreover have "random_gen (snd (set_random_seed raw seed deterministic w)) = Gen (Some ?r) 0"
      and "np_random_gen (snd (set_random_seed raw seed deterministic w)) = Gen (Some ?r) 0"
      and "torch_gen (snd (set_random_seed raw seed deterministic w)) = Gen (Some ?r) 0"
      unfolding eq by (simp_all add: set_cudnn_def)
    ultimately show "\<exists>r. fst (randint raw 0 4294967295 w) = Inr r \<and> 0 \<le> r \<and> r \<le> 4294967295
             \<and> warnings (snd (set_random_seed raw seed deterministic w))
                  = warnings w @ [''Got invalid seed: '' @ t
                                  @ '', use the generated seed: '' @ str_int r]
             \<and> random_gen (snd (set_random_seed raw seed deterministic w)) = Gen (Some r) 0
             \<and> np_random_gen (snd (set_random_seed raw seed deterministic w)) = Gen (Some r) 0
             \<and> torch_gen (snd (set_random_seed raw seed deterministic w)) = Gen (Some r) 0"
      by blast
  }
qed

theorem set_random_seed_int_or_none_returns_witness:
  "(PyInt (- 1) = PyNone \<or> PyInt (- 1) = PyInt (- 1))
   \<and> py_str (int_max_str_digits sample_world) (PyInt (- 1)) = Inr ''-1''
   \<and> \<not> (True \<and> cudnn_flags_frozen sample_world)
   \<and> fst (set_random_seed sample_raw (PyInt (- 1)) True sample_world) = Returned
   \<and> fst (randint sample_raw 0 4294967295 sample_world) = Inr 7
   \<and> warnings (snd (set_random_seed sample_raw (PyInt (- 1)) True sample_world))
        = [''Got invalid seed: -1, use the generated seed: 7'']
   \<and> random_gen (snd (set_random_seed sample_raw (PyInt (- 1)) True sample_world))
        = Gen (Some 7) 0
   \<and> np_random_gen (snd (set_random_seed sample_raw (PyInt (- 1)) True sample_world))
        = Gen (Some 7) 0
   \<and> torch_gen (snd (set_random_seed sample_raw (PyInt (- 1)) True sample_world))
        = Gen (Some 7) 0"
proof -
  have a: "PyInt (- 1) = PyNone \<or> PyInt (- 1) = PyInt (- 1)"
    by simp
  have b: "py_str (int_max_str_digits sample_world) (PyInt (- 1)) = Inr ''-1''"
    by (simp add: int_str_m1)
  have r: "fst (randint sample_raw 0 4294967295 sample_world) = Inr 7"
    by (simp add: randint_def sample_raw_def sample_world_def)
  have w: "warnings sample_world = []"
    by (simp add: sample_world_def)
  have n: "PyInt (- 1) = PyNone \<or> (- 1 :: int) < 0 \<or> 4294967295 < (- 1 :: int)"
    by simp
  have c: "\<not> (True \<and> cudnn_flags_frozen sample_world)"
    by (simp add: sample_world_def)
  from set_random_seed_int_or_none_returns [OF a b c, of sample_raw]
  have ret: "fst (set_random_seed sample_raw (PyInt (- 1)) True sample_world) = Returned"
    and "\<exists>r. fst (randint sample_raw 0 4294967295 sample_world) = Inr r \<and> 0 \<le> r \<and> r \<le> 4294967295
           \<and> warnings (snd (set_random_seed sample_raw (PyInt (- 1)) True sample_world))
                = warnings sample_world @ [''Got invalid seed: '' @ ''-1''
                                @ '', use the generated seed: '' @ str_int r]
           \<and> random_gen (snd (set_random_seed sample_raw (PyInt (- 1)) True sample_world))
                = Gen (Some r) 0
           \<and> np_random_gen (snd (set_random_seed sample_raw (PyInt (- 1)) True sample_world))
                = Gen (Some r) 0
           \<and> torch_gen (snd (set_random_seed sample_raw (PyInt (- 1)) True sample_world))
                = Gen (Some r) 0"
    using n by blast+
  then show ?thesis
    using a b c r w by (auto simp: str_int_7)
qed

text \<open>
  C4 at the seed \<^verbatim>\<open>True\<close>. It passes the range test as the integer 1 and is not
  replaced; the three generators are seeded with 1; line 85 writes \<^verbatim>\<open>str(True)\<close>, so
  \<^verbatim>\<open>PYTHONHASHSEED\<close> is \<^verbatim>\<open>True\<close>, which is not the decimal string of the seed.
  (For a plain integer it is: \<open>set_random_seed_plain_seed\<close>.)
\<close>

theorem set_random_seed_bool_seed_hashseed:
  "fst (set_random_seed sample_raw (PyBool True) False sample_world) = Returned
   \<and> warnings (snd (set_random_seed sample_raw (PyBool True) False sample_world)) = []
   \<and> random_gen (snd (set_random_seed sample_raw (PyBool True) False sample_world))
        = Gen (Some 1) 0
   \<and> np_random_gen (snd (set_random_seed sample_raw (PyBool True) False sample_world))
        = Gen (Some 1) 0
   \<and> torch_gen (snd (set_random_seed sample_raw (PyBool True) False sample_world))
        = Gen (Some 1) 0
   \<and> environ (snd (set_random_seed sample_raw (PyBool True) False sample_world))
        ''PYTHONHASHSEED'' = Some ''True''"
proof -
  have "resolve_seed sample_raw (PyBool True) sample_world = (Inr (BoolInt True), sample_world)"
    by (simp add: min_seed_value_def max_seed_value_def)
  from set_random_seed_eq [OF this, of False] show ?thesis
    by (simp add: set_cudnn_def bool_str_def sample_world_def)
qed

text \<open>
  C5. After a call with \<^verbatim>\<open>deterministic=True\<close> that returns, the benchmark flag is false
  and the deterministic flag is true; after a call with \<^verbatim>\<open>deterministic=False\<close> both
  flags have the values they had before.
\<close>

theorem set_random_seed_cudnn_flags:
  "(fst (set_random_seed raw seed True w) = Returned \<longrightarrow>
      \<not> cudnn_benchmark (snd (set_random_seed raw seed True w))
      \<and> cudnn_deterministic (snd (set_random_seed raw seed True w)))
   \<and> cudnn_benchmark (snd (set_random_seed raw seed False w)) = cudnn_benchmark w
   \<and> cudnn_deterministic (snd (set_random_seed raw seed False w)) = cudnn_deterministic w"
proof (cases "resolve_seed raw seed w")
  case (Pair r w1)
  note flags = resolve_seed_frame [OF Pair]
  show ?thesis
  proof (cases r)
    case (Inl e)
    with Pair flags show ?thesis
      by (simp add: set_random_seed_def)
  next
    case (Inr s)
    with Pair have "resolve_seed raw seed w = (Inr s, w1)"
      by simp
    from set_random_seed_eq [OF this] flags show ?thesis
      by (auto simp: set_cudnn_def)
  qed
qed

theorem set_random_seed_cudnn_flags_witness:
  "fst (set_random_seed sample_raw (PyInt 42) True sample_world) = Returned
   \<and> cudnn_benchmark sample_world
   \<and> \<not> cudnn_benchmark (snd (set_random_seed sample_raw (PyInt 42) True sample_world))
   \<and> cudnn_deterministic (snd (set_random_seed sample_raw (PyInt 42) True sample_world))
   \<and> cudnn_benchmark (snd (set_random_seed sample_raw (PyInt 42) False sample_world))
   \<and> \<not> cudnn_deterministic (snd (set_random_seed sample_raw (PyInt 42) False sample_world))"
proof -
  have h: "resolve_seed sample_raw (PyInt 42) sample_world = (Inr (PlainInt 42), sample_world)"
    by (simp add: min_seed_value_def max_seed_value_def)
  have f: "\<not> cudnn_flags_frozen sample_world"
    by (simp add: sample_world_def)
  have r: "fst (set_random_seed sample_raw (PyInt 42) True sample_world) = Returned"
    by (simp add: set_random_seed_eq [OF h] set_cudnn_def f)
  have w: "cudnn_benchmark sample_world" "\<not> cudnn_deterministic sample_world"
    by (simp_all add: sample_world_def)
  show ?thesis
    using r w set_random_seed_cudnn_flags [of sample_raw "PyInt 42" sample_world] by simp
qed

section \<open>Properties of \<^verbatim>\<open>symlink\<close>\<close>

lemma os_remove_file_or_link:
  assumes "fs dst = Some (RegularFile c) \<or> fs dst = Some (Symlink t)"
  shows "os_remove dst fs = (Returned, fs(dst := None))"
  using assms by (auto simp: os_remove_def)

lemma os_remove_directory:
  assumes "fs dst = Some Directory"
  shows "os_remove dst fs = (Raised IsADirectoryError, fs)"
  using assms by (simp add: os_remove_def)


lemma sample_target_ok: "target_error sample_platform ''model.pth'' = None"
  by (simp add: sample_platform_def sample_target_error_def)

lemma sample_target_empty: "target_error sample_platform [] = Some FileNotFoundError"
  by (simp add: sample_platform_def sample_target_error_def)

text \<open>
  On a destination that is a directory the removal raises, whatever the source and the
  options: the directory stays and \<^verbatim>\<open>os.symlink\<close> is not reached.
\<close>

lemma symlink_overwrite_directory:
  assumes "fs dst = Some Directory"
  shows "symlink pf src dst True kwargs fs = (Raised IsADirectoryError, fs)"
proof -
  have "lexists dst fs"
    using assms by (simp add: lexists_def)
  then show ?thesis
    using os_remove_directory [of fs dst] assms by (simp add: symlink_def and_then_def)
qed

text \<open>
  With a source that the platform refuses as a link target, an existing file or link at the
  destination is removed all the same, and the call then raises without making the link.
\<close>

lemma symlink_overwrite_refused_target:
  assumes "fs dst = Some (RegularFile c) \<or> fs dst = Some (Symlink t)"
    and "target_error pf src = Some e"
  shows "symlink pf src dst True [] fs = (Raised e, fs(dst := None))"
proof -
  have "lexists dst fs"
    using assms(1) by (auto simp: lexists_def)
  then show ?thesis
    using os_remove_file_or_link [of fs dst c t] assms
    by (simp add: symlink_def and_then_def os_symlink_def)
qed




text \<open>
  C6, as stated, fails for a source that the platform refuses as a link target: with the
  empty source the error raised is \<^verbatim>\<open>FileNotFoundError\<close>, not the error of an existing
  destination.
\<close>

theorem symlink_no_overwrite_empty_source:
  "lexists ''log.txt'' sample_fs
   \<and> fst (symlink sample_platform [] ''log.txt'' False [] sample_fs) = Raised FileNotFoundError
   \<and> fst (symlink sample_platform [] ''log.txt'' False [] sample_fs) \<noteq> Raised FileExistsError"
  by (simp add: symlink_def and_then_def os_symlink_def lexists_def sample_fs_def
        sample_target_empty)

text \<open>
  C6, amended. With \<^verbatim>\<open>overwrite=False\<close> and a destination that exists, nothing is
  removed: the call is the underlying \<^verbatim>\<open>os.symlink\<close> call, whatever the options. With no
  options passed through it raises and leaves the file system as it was, and the error is
  \<^verbatim>\<open>FileExistsError\<close> whenever the platform accepts the source as a link target.
\<close>

theorem symlink_no_overwrite_exists:
  assumes "lexists dst fs"
  shows "symlink pf src dst False kwargs fs = os_symlink pf src dst kwargs fs
    \<and> (\<exists>e. symlink pf src dst False [] fs = (Raised e, fs))
    \<and> (target_error pf src = None \<longrightarrow>
          symlink pf src dst False [] fs = (Raised FileExistsError, fs))"
  using assms
  by (auto simp: symlink_def and_then_def os_symlink_def lexists_def split: option.splits)

theorem symlink_no_overwrite_exists_witness:
  "lexists ''log.txt'' sample_fs
   \<and> target_error sample_platform ''model.pth'' = None
   \<and> fst (symlink sample_platform ''model.pth'' ''log.txt'' False [] sample_fs)
        = Raised FileExistsError
   \<and> snd (symlink sample_platform ''model.pth'' ''log.txt'' False [] sample_fs) ''log.txt''
        = Some (RegularFile ''data'')"
proof -
  have l: "lexists ''log.txt'' sample_fs"
    by (simp add: lexists_def sample_fs_def)
  have "symlink sample_platform ''model.pth'' ''log.txt'' False [] sample_fs
          = (Raised FileExistsError, sample_fs)"
    using sample_target_ok
      symlink_no_overwrite_exists [OF l, of sample_platform "''model.pth''" "[]"]
    by blast
  then show ?thesis
    using l sample_target_ok by (simp add: sample_fs_def)
qed

section \<open>Properties of \<^verbatim>\<open>create_small_table\<close>\<close>

lemma zip_star_Nil: "zip_star [] = []"
  by (simp add: zip_star.simps)

lemma dict_items_Nil: "dict_items [] = []"
  by (simp add: dict_items_def)

text \<open>
  Unzipping the items of a dictionary with at least one entry gives two tuples, the keys and
  the values, each in iteration order: two rounds of \<open>zip_star\<close> take the components, the
  third finds every tuple exhausted.
\<close>

lemma zip_star_dict_items:
  assumes "d \<noteq> []"
  shows "zip_star (dict_items d) = [map (StrObj \<circ> fst) d, map (AnyObj \<circ> snd) d]"
proof -
  let ?r1 = "map (\<lambda>(k, v). [AnyObj v :: 'a pyobj]) d"
  let ?r2 = "map (\<lambda>(k, v). [] :: 'a pyobj list) d"
  have r0: "dict_items d \<noteq> []" "[] \<notin> set (dict_items d)"
    using assms by (auto simp: dict_items_def)
  have r1: "?r1 \<noteq> []" "[] \<notin> set ?r1"
    using assms by auto
  have r2: "[] \<in> set ?r2"
    using assms by (cases d) auto
  have h0: "map hd (dict_items d) = map (StrObj \<circ> fst) d"
    and t0: "map tl (dict_items d) = ?r1"
    by (auto simp: dict_items_def)
  have h1: "map hd ?r1 = map (AnyObj \<circ> snd) d" and t1: "map tl ?r1 = ?r2"
    by auto
  have "zip_star (dict_items d) = map (StrObj \<circ> fst) d # zip_star ?r1"
    using r0 by (subst zip_star.simps) (simp add: h0 t0)
  also have "zip_star ?r1 = map (AnyObj \<circ> snd) d # zip_star ?r2"
    using r1 by (subst zip_star.simps) (simp only: h1 t1 if_False simp_thms)
  also have "zip_star ?r2 = []"
    using r2 by (subst zip_star.simps) simp
  finally show ?thesis .
qed

lemma sample_table:
  "sample_tabulate
     \<lparr>tabular_data = [[AnyObj 50, AnyObj 80]], headers = [StrObj ''AP'', StrObj ''AP50''],
      tablefmt = ''pipe'', floatfmt = ''.3f'', stralign = ''center'', numalign = ''center''\<rparr>
    = Inr (''AP|AP50'' @ [newline] @ ''50|80'')"
  by code_simp

text \<open>
  C7. For the empty dictionary the call raises the \<^verbatim>\<open>ValueError\<close> of the unpacking,
  whatever \<^verbatim>\<open>tabulate\<close> would do. For a dictionary with at least one entry the unpacking
  succeeds, binding the keys and the values, and the call goes on to \<^verbatim>\<open>tabulate\<close>: its
  result is what \<^verbatim>\<open>tabulate\<close> gives for these two tuples, so it returns a string
  whenever \<^verbatim>\<open>tabulate\<close> does.
\<close>

theorem create_small_table_unzip:
  "(h small_dict = [] \<longrightarrow> create_small_table tabulate small_dict h = (Inl ValueError, h))
   \<and> (h small_dict \<noteq> [] \<longrightarrow>
        unpack2 (zip_star (dict_items (h small_dict)))
          = Inr (map (StrObj \<circ> fst) (h small_dict), map (AnyObj \<circ> snd) (h small_dict))
        \<and> create_small_table tabulate small_dict h
          = (tabulate \<lparr>tabular_data = [map (AnyObj \<circ> snd) (h small_dict)],
                        headers = map (StrObj \<circ> fst) (h small_dict),
                        tablefmt = ''pipe'', floatfmt = ''.3f'',
                        stralign = ''center'', numalign = ''center''\<rparr>, h))"
  by (simp add: create_small_table_def dict_items_Nil zip_star_Nil zip_star_dict_items)

theorem create_small_table_unzip_witness:
  "sample_heap 1 = []
   \<and> fst (create_small_table sample_tabulate 1 sample_heap) = Inl ValueError
   \<and> sample_heap 0 = [(''AP'', 50), (''AP50'', 80)]
   \<and> unpack2 (zip_star (dict_items (sample_heap 0)))
       = Inr ([StrObj ''AP'', StrObj ''AP50''], [AnyObj 50, AnyObj 80])
   \<and> fst (create_small_table sample_tabulate 0 sample_heap)
       = Inr (''AP|AP50'' @ [newline] @ ''50|80'')"
proof -
  have e: "sample_heap 1 = []" and n: "sample_heap 0 = [(''AP'', 50), (''AP50'', 80)]"
    by (simp_all add: sample_heap_def)
  then have ne: "sample_heap 0 \<noteq> []"
    by simp
  have "create_small_table sample_tabulate 1 sample_heap = (Inl ValueError, sample_heap)"
    using e create_small_table_unzip [of sample_heap 1 sample_tabulate] by blast
  moreover have "unpack2 (zip_star (dict_items (sample_heap 0)))
      = Inr (map (StrObj \<circ> fst) (sample_heap 0), map (AnyObj \<circ> snd) (sample_heap 0))"
    using ne create_small_table_unzip [of sample_heap 0 sample_tabulate] by blast
  moreover have "create_small_table sample_tabulate 0 sample_heap
      = (sample_tabulate \<lparr>tabular_data = [map (AnyObj \<circ> snd) (sample_heap 0)],
                        headers = map (StrObj \<circ> fst) (sample_heap 0),
                        tablefmt = ''pipe'', floatfmt = ''.3f'',
                        stralign = ''center'', numalign = ''center''\<rparr>, sample_heap)"
    using ne create_small_table_unzip [of sample_heap 0 sample_tabulate] by blast
  ultimately show ?thesis
    using e n by (simp add: sample_table)
qed

text \<open>
  C10. The call leaves the heap as it found it, whether it returns or raises: the dictionary
  is only read, and \<^verbatim>\<open>tabulate\<close> is handed the two fresh tuples, not the dictionary.
\<close>

theorem create_small_table_frame:
  "snd (create_small_table tabulate small_dict h) = h"
  by (simp add: create_small_table_def split: sum.split prod.split)

section \<open>Properties of \<^verbatim>\<open>collect_env\<close>\<close>

subsection \<open>Appending to the dictionary of lists\<close>

lemma map_of_dd_append:
  "map_of (dd_append d k v) =
     (map_of d)(k \<mapsto> (case map_of d k of None \<Rightarrow> [v] | Some vs \<Rightarrow> vs @ [v]))"
  by (induction d k v rule: dd_append.induct) (auto simp: fun_eq_iff)

lemma keys_dd_append:
  "map fst (dd_append d k v) = (if k \<in> set (map fst d) then map fst d else map fst d @ [k])"
  by (induction d k v rule: dd_append.induct) auto

lemma distinct_dd_append:
  "distinct (map fst d) \<Longrightarrow> distinct (map fst (dd_append d k v))"
  by (simp add: keys_dd_append)

subsection \<open>The grouping loop\<close>

lemma device_ids_Suc:
  "device_ids names (Suc n) name
     = device_ids names n name @ (if names ! n = name then [str_int (int n)] else [])"
  by (simp add: device_ids_def)

lemma device_ids_unseen:
  assumes "n \<le> length names" and "name \<notin> set (take n names)"
  shows "device_ids names n name = []"
proof -
  have "names ! k \<noteq> name" if "k < n" for k
  proof -
    have "take n names ! k \<in> set (take n names)"
      using that assms(1) by (intro nth_mem) simp
    with that assms(2) show ?thesis
      by auto
  qed
  then show ?thesis
    by (simp add: device_ids_def filter_empty_conv)
qed

lemma devices_upto_Suc:
  "devices_upto names (Suc n)
     = dd_append (devices_upto names n) (names ! n) (str_int (int n))"
  by (simp add: devices_upto_def)

text \<open>
  The loop invariant: after \<open>n\<close> rounds the keys are distinct, they are the names of the
  first \<open>n\<close> devices, and each is mapped to the indices of the devices that bear it.
\<close>

lemma devices_upto_inv:
  assumes "n \<le> length names"
  shows "distinct (map fst (devices_upto names n))
    \<and> map_of (devices_upto names n)
        = (\<lambda>name. if name \<in> set (take n names) then Some (device_ids names n name) else None)"
  using assms
proof (induction n)
  case 0
  then show ?case
    by (simp add: devices_upto_def)
next
  case (Suc n)
  then have n: "n < length names" and le: "n \<le> length names"
    by simp_all
  from Suc.IH [OF le]
  have d: "distinct (map fst (devices_upto names n))"
    and m: "map_of (devices_upto names n)
        = (\<lambda>name. if name \<in> set (take n names) then Some (device_ids names n name) else None)"
    by simp_all
  have t: "set (take (Suc n) names) = insert (names ! n) (set (take n names))"
    using n by (simp add: take_Suc_conv_app_nth)
  have "map_of (devices_upto names (Suc n)) name
        = (if name \<in> set (take (Suc n) names) then Some (device_ids names (Suc n) name) else None)"
    for name
    unfolding devices_upto_Suc map_of_dd_append m t
    using device_ids_unseen [OF le, of "names ! n"]
    by (auto simp: device_ids_Suc)
  then show ?case
    using d by (auto simp: devices_upto_Suc distinct_dd_append)
qed

lemma devices_eq: "devices names = devices_upto names (length names)"
  by (simp add: devices_def devices_upto_def)

lemma devices_inv:
  "distinct (map fst (devices names))"
  "map_of (devices names)
     = (\<lambda>name. if name \<in> set names then Some (device_ids names (length names) name) else None)"
  using devices_upto_inv [of "length names" names] by (simp_all add: devices_eq)

lemma devices_set:
  "(name, ids) \<in> set (devices names)
     \<longleftrightarrow> name \<in> set names \<and> ids = device_ids names (length names) name"
  using devices_inv [of names] map_of_eq_Some_iff [of "devices names" name ids]
  by (auto split: if_splits)

subsection \<open>The entries of the report\<close>

lemma gpu_entries_set:
  "set (gpu_entries names)
     = (\<lambda>name. (''GPU '' @ join '','' (device_ids names (length names) name), InfoStr name))
         ` set names"
proof -
  have "set (devices names) = (\<lambda>name. (name, device_ids names (length names) name)) ` set names"
    by (auto simp: devices_set)
  then show ?thesis
    by (simp add: gpu_entries_def image_image)
qed

lemma gpu_entries_distinct: "distinct (map snd (gpu_entries names))"
proof -
  have "map snd (gpu_entries names) = map InfoStr (map fst (devices names))"
    by (simp add: gpu_entries_def case_prod_beta)
  then show ?thesis
    using devices_inv(1) [of names] by (simp add: distinct_map inj_on_def)
qed

lemma gpu_entries_are_gpu: "e \<in> set (gpu_entries names) \<Longrightarrow> is_gpu_entry e"
  by (auto simp: gpu_entries_def is_gpu_entry_def)

lemma filter_gpu_entries: "filter is_gpu_entry (gpu_entries names) = gpu_entries names"
  by (simp add: gpu_entries_are_gpu)

lemma gpu_entries_sample:
  "gpu_entries [''Tesla T4'', ''Tesla T4''] = [(''GPU 0,1'', InfoStr ''Tesla T4'')]"
  by code_simp

text \<open>
  C9. The report is the table of the entries \<open>env_info\<close>, followed by the build
  configuration. When the accelerator is unavailable, no entry is a GPU entry. When it is
  available, the GPU entries are exactly those made from the device names: no two of them
  carry the same name, and there is one for each name in use, labelled \<^verbatim>\<open>GPU\<close>, a space,
  and the comma-joined indices of all the devices of that name.
\<close>

theorem collect_env_gpu_entries:
  "collect_env tabulate env = tabulate (env_info env) @ [newline] @ torch_config env
   \<and> (\<not> cuda_is_available env \<longrightarrow> (\<forall>e \<in> set (env_info env). \<not> is_gpu_entry e))
   \<and> (cuda_is_available env \<longrightarrow>
        filter is_gpu_entry (env_info env) = gpu_entries (cuda_device_names env)
        \<and> distinct (map snd (gpu_entries (cuda_device_names env)))
        \<and> set (gpu_entries (cuda_device_names env))
            = (\<lambda>name. (''GPU '' @ join '',''
                          (device_ids (cuda_device_names env) (length (cuda_device_names env)) name),
                        InfoStr name))
                ` set (cuda_device_names env))"
proof (intro conjI impI)
  show "collect_env tabulate env = tabulate (env_info env) @ [newline] @ torch_config env"
    by (simp add: collect_env_def)
next
  assume "\<not> cuda_is_available env"
  then show "\<forall>e \<in> set (env_info env). \<not> is_gpu_entry e"
    by (auto simp: env_info_def is_gpu_entry_def split: option.splits)
next
  assume "cuda_is_available env"
  then show "filter is_gpu_entry (env_info env) = gpu_entries (cuda_device_names env)"
    by (simp add: env_info_def filter_gpu_entries is_gpu_entry_def split: option.splits)
next
  show "distinct (map snd (gpu_entries (cuda_device_names env)))"
    by (rule gpu_entries_distinct)
next
  show "set (gpu_entries (cuda_device_names env))
            = (\<lambda>name. (''GPU '' @ join '',''
                          (device_ids (cuda_device_names env) (length (cuda_device_names env)) name),
                        InfoStr name))
                ` set (cuda_device_names env)"
    by (rule gpu_entries_set)
qed

theorem collect_env_gpu_entries_witness:
  "\<not> cuda_is_available sample_cpu_env
   \<and> filter is_gpu_entry (env_info sample_cpu_env) = []
   \<and> cuda_is_available sample_gpu_env
   \<and> filter is_gpu_entry (env_info sample_gpu_env) = [(''GPU 0,1'', InfoStr ''Tesla T4'')]"
proof -
  have c: "\<not> cuda_is_available sample_cpu_env"
    by (simp add: sample_cpu_env_def)
  have g: "cuda_is_available sample_gpu_env"
    and n: "cuda_device_names sample_gpu_env = [''Tesla T4'', ''Tesla T4'']"
    by (simp_all add: sample_gpu_env_def)
  have "\<forall>e \<in> set (env_info sample_cpu_env). \<not> is_gpu_entry e"
    using c collect_env_gpu_entries [of "\<lambda>rows. []" sample_cpu_env] by blast
  moreover have "filter is_gpu_entry (env_info sample_gpu_env)
      = gpu_entries (cuda_device_names sample_gpu_env)"
    using g collect_env_gpu_entries [of "\<lambda>rows. []" sample_gpu_env] by blast
  ultimately show ?thesis
    using c g by (simp add: n gpu_entries_sample filter_empty_conv)
qed

end
